theory Spec2Isabelle
  imports Complex_Main "HOL-Library.Multiset"
begin

section \<open>Data model\<close>

text \<open>
  The service is one Python module, \<^verbatim>\<open>src/app/app.py\<close>: a Flask application object
  \<^verbatim>\<open>app\<close>, two Prometheus metrics, a before/after hook pair and three view functions.
  Clock readings (\<^verbatim>\<open>time.time()\<close>) and the random draw are inputs of the model: every
  call of \<^verbatim>\<open>time.time()\<close> in the source is one argument of the function that embeds it.
  Python floats are idealised as reals; the only arithmetic on them is one subtraction
  and one affine map.
\<close>

type_synonym seconds = real

text \<open>Python exceptions that the modelled operations can raise.\<close>

datatype error = AttributeError | KeyError | ValueError | OtherException

text \<open>A response body: the dictionary given to \<^verbatim>\<open>jsonify\<close>, or raw text.\<close>

datatype payload = JsonObject "(string \<times> string) list" | Text string

record response =
  status_code :: int
  mimetype :: string
  payload :: payload

text \<open>
  The request context as the hooks read it: \<^verbatim>\<open>request.method\<close> (field \<open>req_method\<close>), \<^verbatim>\<open>request.path\<close> and
  \<^verbatim>\<open>request.endpoint\<close> (the endpoint name of the matched rule, \<^verbatim>\<open>None\<close> when the
  router matched nothing).
\<close>

record request =
  req_method :: string
  path :: string
  endpoint :: "string option"

text \<open>The three view functions of the module.\<close>

datatype handler = Index | Healthz | Metrics

text \<open>
  An entry of \<^verbatim>\<open>app.view_functions\<close>: a callable. Reading its \<^verbatim>\<open>__name__\<close> attribute
  gives a string, or raises (\<^verbatim>\<open>AttributeError\<close> when the callable has no such
  attribute, anything else when the attribute is a property that raises).
\<close>

record view_function =
  dunder_name :: "error + string"
  body :: handler

text \<open>
  The process-wide application object: its dispatch table and the attribute
  \<^verbatim>\<open>_start_time\<close>, absent until \<^verbatim>\<open>setattr\<close> creates it.
\<close>

record app =
  view_functions :: "string \<rightharpoonup> view_function"
  start_time :: "seconds option"

text \<open>
  The process-wide metrics: each metric maps a tuple of label values (in the order of
  the declared label names) to its child. A counter child is its count; a histogram
  child is kept as the list of its observations, oldest first.
\<close>

record registry =
  REQUEST_COUNT :: "string list \<Rightarrow> nat"
  REQUEST_LATENCY :: "string list \<Rightarrow> seconds list"

text \<open>Label names declared at lines 9-18 of the module.\<close>

definition REQUEST_COUNT_labelnames :: "string list" where
  "REQUEST_COUNT_labelnames = [''method'', ''endpoint'', ''http_status'']"

definition REQUEST_LATENCY_labelnames :: "string list" where
  "REQUEST_LATENCY_labelnames = [''endpoint'']"

section \<open>The metrics library as the module uses it\<close>

text \<open>Values passed as label keyword arguments: strings and integers.\<close>

datatype pyval = PyStr string | PyInt int

definition digit_char :: "nat \<Rightarrow> char" where
  "digit_char d = ''0123456789'' ! d"

function str_nat :: "nat \<Rightarrow> string" where
  "str_nat n = (if n < 10 then [digit_char n] else str_nat (n div 10) @ [digit_char (n mod 10)])"
  by pat_completeness auto
termination
  by (relation "measure (\<lambda>n. n)") auto

declare str_nat.simps [simp del]

text \<open>Python's \<^verbatim>\<open>str\<close> on the two kinds of label value.\<close>

fun str :: "pyval \<Rightarrow> string" where
  "str (PyStr s) = s"
| "str (PyInt i) = (if i < 0 then CHR ''-'' # str_nat (nat (- i)) else str_nat (nat i))"

text \<open>\<^verbatim>\<open>sorted(xs) == sorted(ys)\<close>: the two lists hold the same elements, each as often.\<close>

fun same_elems :: "'a list \<Rightarrow> 'a list \<Rightarrow> bool" where
  "same_elems [] ys = (ys = [])"
| "same_elems (x # xs) ys = (x \<in> set ys \<and> same_elems xs (remove1 x ys))"

text \<open>
  \<^verbatim>\<open>metric.labels(**labelkwargs)\<close>: raises \<^verbatim>\<open>ValueError\<close> unless the keyword names are
  the declared label names; the child's key is \<^verbatim>\<open>str\<close> of each value, in the declared
  order.
\<close>

definition labels :: "string list \<Rightarrow> (string \<times> pyval) list \<Rightarrow> error + string list" where
  "labels labelnames labelkwargs =
     (if \<not> same_elems (map fst labelkwargs) labelnames then Inl ValueError
      else case those (map (map_of labelkwargs) labelnames) of
             None \<Rightarrow> Inl KeyError
           | Some vs \<Rightarrow> Inr (map str vs))"

text \<open>\<^verbatim>\<open>child.inc()\<close> on the counter and \<^verbatim>\<open>child.observe(v)\<close> on the histogram.\<close>

definition inc :: "string list \<Rightarrow> registry \<Rightarrow> registry" where
  "inc k reg = reg\<lparr>REQUEST_COUNT := (REQUEST_COUNT reg)(k := REQUEST_COUNT reg k + 1)\<rparr>"

definition observe :: "string list \<Rightarrow> seconds \<Rightarrow> registry \<Rightarrow> registry" where
  "observe k v reg = reg\<lparr>REQUEST_LATENCY := (REQUEST_LATENCY reg)(k := REQUEST_LATENCY reg k @ [v])\<rparr>"

section \<open>The hook pair\<close>

text \<open>
  \<^verbatim>\<open>_start_timer\<close> (line 23): \<^verbatim>\<open>setattr(app, "_start_time", time.time())\<close>. The clock
  reading is the argument \<open>now\<close>; the attribute lives on the application object.
\<close>

definition start_timer :: "seconds \<Rightarrow> app \<Rightarrow> app" where
  "start_timer now a = a\<lparr>start_time := Some now\<rparr>"

text \<open>\<^verbatim>\<open>app.view_functions.get(request.endpoint, None)\<close>.\<close>

definition lookup_view :: "app \<Rightarrow> request \<Rightarrow> view_function option" where
  "lookup_view a req = (case endpoint req of None \<Rightarrow> None | Some e \<Rightarrow> view_functions a e)"

text \<open>
  \<^verbatim>\<open>getattr(obj, "__name__", default)\<close>: the default replaces a missing attribute
  (also on \<^verbatim>\<open>None\<close>); any other exception propagates.
\<close>

definition getattr_name :: "view_function option \<Rightarrow> string \<Rightarrow> error + string" where
  "getattr_name obj dflt =
     (case obj of
        None \<Rightarrow> Inr dflt
      | Some f \<Rightarrow>
          (case dunder_name f of
             Inr n \<Rightarrow> Inr n
           | Inl AttributeError \<Rightarrow> Inr dflt
           | Inl e \<Rightarrow> Inl e))"

text \<open>\<^verbatim>\<open>try: x = e  except Exception: x = d\<close>.\<close>

definition try_except :: "error + 'a \<Rightarrow> 'a \<Rightarrow> 'a" where
  "try_except r d = (case r of Inl _ \<Rightarrow> d | Inr v \<Rightarrow> v)"

text \<open>Lines 28-31: the endpoint name derived by introspection of the dispatch table.\<close>

definition derive_endpoint :: "app \<Rightarrow> request \<Rightarrow> string" where
  "derive_endpoint a req = try_except (getattr_name (lookup_view a req) ''unknown'') ''unknown''"

text \<open>
  Lines 41-44: \<^verbatim>\<open>time.time() - getattr(app, "_start_time", time.time())\<close>. Python
  evaluates the left operand first (\<open>t0\<close>), then the arguments of \<^verbatim>\<open>getattr\<close>, among them
  a second clock reading (\<open>t1\<close>), which is the default when the attribute is absent.
  Subtracting two floats does not raise.
\<close>

definition elapsed_time :: "seconds \<Rightarrow> seconds \<Rightarrow> app \<Rightarrow> seconds" where
  "elapsed_time t0 t1 a =
     try_except (Inr (t0 - (case start_time a of None \<Rightarrow> t1 | Some s \<Rightarrow> s))) 0"

text \<open>
  \<^verbatim>\<open>_record_metrics\<close> (lines 26-47). The result is the registry as the call leaves it,
  and the returned response or the exception that escapes.
\<close>

definition record_metrics ::
  "seconds \<Rightarrow> seconds \<Rightarrow> app \<Rightarrow> request \<Rightarrow> response \<Rightarrow> registry \<Rightarrow> registry \<times> (error + response)"
where
  "record_metrics t0 t1 a req resp reg =
     (let endpoint_name = derive_endpoint a req in
      case labels REQUEST_COUNT_labelnames
             [(''method'', PyStr (req_method req)),
              (''endpoint'', PyStr (path req)),
              (''http_status'', PyInt (status_code resp))] of
        Inl e \<Rightarrow> (reg, Inl e)
      | Inr k \<Rightarrow>
          (let reg1 = inc k reg;
               elapsed = elapsed_time t0 t1 a in
           case labels REQUEST_LATENCY_labelnames [(''endpoint'', PyStr (path req))] of
             Inl e \<Rightarrow> (reg1, Inl e)
           | Inr h \<Rightarrow> (observe h elapsed reg1, Inr resp)))"

section \<open>The view functions\<close>

text \<open>
  The field \<open>mimetype\<close> of a response is the \<^verbatim>\<open>mimetype=\<close> argument its constructor was
  given. \<^verbatim>\<open>jsonify(d)\<close>: status 200, the JSON mimetype and the dictionary as body.
  \<^verbatim>\<open>Response(body, mimetype=m)\<close>: status 200, the text as body and the argument \<open>m\<close>.
\<close>

definition jsonify :: "(string \<times> string) list \<Rightarrow> response" where
  "jsonify d = \<lparr>status_code = 200, mimetype = ''application/json'', payload = JsonObject d\<rparr>"

definition Response :: "string \<Rightarrow> string \<Rightarrow> response" where
  "Response b m = \<lparr>status_code = 200, mimetype = m, payload = Text b\<rparr>"

text \<open>
  The \<^verbatim>\<open>Content-Type\<close> header of a response built from a \<^verbatim>\<open>mimetype=\<close> argument is not
  the argument itself. The HTTP library (werkzeug, which Flask's \<^verbatim>\<open>Response\<close> extends)
  sets it to \<^verbatim>\<open>get_content_type(mimetype, "utf-8")\<close>, which appends the charset parameter
  to every mimetype that stands for text:
  \<^verbatim>\<open>
  if (mimetype.startswith("text/") or mimetype in _charset_mimetypes
          or mimetype.endswith("+xml")):
      mimetype += f"; charset={charset}"
  return mimetype
  \<close>
  This is library code, not code of the module; it is modelled from the library's
  documented behaviour.
\<close>

definition startswith :: "string \<Rightarrow> string \<Rightarrow> bool" where
  "startswith s p = (take (length p) s = p)"

definition endswith :: "string \<Rightarrow> string \<Rightarrow> bool" where
  "endswith s p = (drop (length s - length p) s = p)"

definition charset_mimetypes :: "string list" where
  "charset_mimetypes =
     [''application/ecmascript'', ''application/javascript'', ''application/sql'',
      ''application/xml'', ''application/xml-dtd'', ''application/xml-external-parsed-entity'']"

definition get_content_type :: "string \<Rightarrow> string \<Rightarrow> string" where
  "get_content_type m charset =
     (if startswith m ''text/'' \<or> m \<in> set charset_mimetypes \<or> endswith m ''+xml''
      then m @ ''; charset='' @ charset
      else m)"

definition content_type :: "response \<Rightarrow> string" where
  "content_type r = get_content_type (mimetype r) ''utf-8''"

text \<open>
  \<^verbatim>\<open>random.uniform(a, b)\<close> is \<^verbatim>\<open>a + (b - a) * random()\<close>; the draw \<open>u\<close> of
  \<^verbatim>\<open>random()\<close>, a number in \<open>[0, 1)\<close>, is an input.
\<close>

definition uniform :: "real \<Rightarrow> real \<Rightarrow> real \<Rightarrow> real" where
  "uniform a b u = a + (b - a) * u"

text \<open>
  What the module imports from the metrics library and does not define: the renderer of
  the registry and the content type of its output.
\<close>

record prometheus =
  generate_latest :: "registry \<Rightarrow> string"
  CONTENT_TYPE_LATEST :: string

text \<open>
  A view returns the time it slept (\<^verbatim>\<open>time.sleep\<close>) and its response.
  \<^verbatim>\<open>index\<close> (lines 50-53), \<^verbatim>\<open>healthz\<close> (lines 56-57), \<^verbatim>\<open>metrics\<close> (lines 60-61).
\<close>

definition index :: "real \<Rightarrow> seconds \<times> response" where
  "index u = (uniform (1 / 100) (2 / 10) u, jsonify [(''message'', ''Hello from HWMonitor Flask app!'')])"

definition healthz :: "seconds \<times> response" where
  "healthz = (0, jsonify [(''status'', ''ok'')])"

definition metrics :: "prometheus \<Rightarrow> registry \<Rightarrow> seconds \<times> response" where
  "metrics P reg = (0, Response (generate_latest P reg) (CONTENT_TYPE_LATEST P))"

fun call_view :: "prometheus \<Rightarrow> handler \<Rightarrow> real \<Rightarrow> registry \<Rightarrow> seconds \<times> response" where
  "call_view P Index u reg = index u"
| "call_view P Healthz u reg = healthz"
| "call_view P Metrics u reg = metrics P reg"

text \<open>
  The three \<^verbatim>\<open>@app.route\<close> decorators: each registers a rule for its path under the
  endpoint named after the function, and the function in \<^verbatim>\<open>app.view_functions\<close>.
\<close>

definition url_map :: "string \<rightharpoonup> string" where
  "url_map = [''/'' \<mapsto> ''index'', ''/healthz'' \<mapsto> ''healthz'', ''/metrics'' \<mapsto> ''metrics'']"

definition app_view_functions :: "string \<rightharpoonup> view_function" where
  "app_view_functions =
     [''index'' \<mapsto> \<lparr>dunder_name = Inr ''index'', body = Index\<rparr>,
      ''healthz'' \<mapsto> \<lparr>dunder_name = Inr ''healthz'', body = Healthz\<rparr>,
      ''metrics'' \<mapsto> \<lparr>dunder_name = Inr ''metrics'', body = Metrics\<rparr>]"

text \<open>The application after import: no \<^verbatim>\<open>_start_time\<close> yet, nothing counted.\<close>

definition app0 :: app where
  "app0 = \<lparr>view_functions = app_view_functions, start_time = None\<rparr>"

definition registry0 :: registry where
  "registry0 = \<lparr>REQUEST_COUNT = (\<lambda>k. 0), REQUEST_LATENCY = (\<lambda>k. [])\<rparr>"

section \<open>One request, and interleaved requests\<close>

text \<open>
  What one request reads from its environment: the clock in \<^verbatim>\<open>_start_timer\<close>, the two
  clock readings in \<^verbatim>\<open>_record_metrics\<close>, and the random draw.
\<close>

record env =
  t_before :: seconds
  t_after :: seconds
  t_default :: seconds
  draw :: real

text \<open>
  Dispatch: the view registered for \<^verbatim>\<open>request.endpoint\<close> runs; when there is none, the
  framework answers with an error response of its own, \<open>err\<close>.
\<close>

definition dispatch_request ::
  "prometheus \<Rightarrow> response \<Rightarrow> app \<Rightarrow> request \<Rightarrow> real \<Rightarrow> registry \<Rightarrow> seconds \<times> response"
where
  "dispatch_request P err a req u reg =
     (case lookup_view a req of
        None \<Rightarrow> (0, err)
      | Some f \<Rightarrow> call_view P (body f) u reg)"

text \<open>
  A request served alone: before-hook, view, after-hook. The result is the new state of
  the process, what the after-hook returns, and the time slept.
\<close>

definition handle_request ::
  "prometheus \<Rightarrow> response \<Rightarrow> env \<Rightarrow> request \<Rightarrow> app \<times> registry \<Rightarrow>
     (app \<times> registry) \<times> (error + response) \<times> seconds"
where
  "handle_request P err e req s =
     (let a1 = start_timer (t_before e) (fst s);
          r = dispatch_request P err a1 req (draw e) (snd s);
          m = record_metrics (t_after e) (t_default e) a1 req (snd r) (snd s)
      in ((a1, fst m), snd m, fst r))"

text \<open>
  Requests served by several threads: each hook runs on the state of the process as the
  hooks of other requests left it. An event is one hook of one request (numbered); the
  hooks themselves never see the number.
\<close>

datatype event =
  Before nat seconds
| After nat seconds seconds request response

fun step :: "app \<times> registry \<Rightarrow> event \<Rightarrow> app \<times> registry" where
  "step (a, reg) (Before i now) = (start_timer now a, reg)"
| "step (a, reg) (After i t0 t1 req resp) = (a, fst (record_metrics t0 t1 a req resp reg))"

definition run :: "event list \<Rightarrow> app \<times> registry \<Rightarrow> app \<times> registry" where
  "run evs s = foldl step s evs"

text \<open>The label tuples an event reports under, if it reports.\<close>

fun counter_key :: "event \<Rightarrow> string list option" where
  "counter_key (Before i now) = None"
| "counter_key (After i t0 t1 req resp) =
     Some [req_method req, path req, str (PyInt (status_code resp))]"

fun latency_key :: "event \<Rightarrow> string list option" where
  "latency_key (Before i now) = None"
| "latency_key (After i t0 t1 req resp) = Some [path req]"

section \<open>Properties of the hook pair\<close>

lemma same_elems_mset: "same_elems xs ys \<longleftrightarrow> mset xs = mset ys"
proof (induction xs arbitrary: ys)
  case Nil
  show ?case by auto
next
  case (Cons x xs)
  show ?case
  proof (cases "x \<in> set ys")
    case True
    then have eq: "mset ys = add_mset x (mset (remove1 x ys))" by simp
    have "same_elems (x # xs) ys \<longleftrightarrow> mset xs = mset (remove1 x ys)"
      using True Cons.IH by simp
    also have "\<dots> \<longleftrightarrow> add_mset x (mset xs) = add_mset x (mset (remove1 x ys))"
      by simp
    also have "\<dots> \<longleftrightarrow> mset (x # xs) = mset ys"
      by (simp only: eq [symmetric] mset.simps)
    finally show ?thesis .
  next
    case False
    then have "mset (x # xs) \<noteq> mset ys"
      by (metis list.set_intros(1) mset_eq_setD)
    with False show ?thesis by simp
  qed
qed

lemma labels_REQUEST_COUNT:
  "labels REQUEST_COUNT_labelnames
     [(''method'', PyStr m), (''endpoint'', PyStr p), (''http_status'', PyInt s)]
   = Inr [m, p, str (PyInt s)]"
  by (simp add: labels_def REQUEST_COUNT_labelnames_def)

lemma labels_REQUEST_LATENCY:
  "labels REQUEST_LATENCY_labelnames [(''endpoint'', PyStr p)] = Inr [p]"
  by (simp add: labels_def REQUEST_LATENCY_labelnames_def)

lemma record_metrics_eq:
  "record_metrics t0 t1 a req resp reg =
     (observe [path req] (elapsed_time t0 t1 a)
        (inc [req_method req, path req, str (PyInt (status_code resp))] reg),
      Inr resp)"
  by (simp add: record_metrics_def labels_REQUEST_COUNT labels_REQUEST_LATENCY Let_def)

lemma step_counter:
  "REQUEST_COUNT (snd (step s ev)) k =
     REQUEST_COUNT (snd s) k + (if counter_key ev = Some k then 1 else 0)"
  by (cases s; cases ev) (auto simp: record_metrics_eq inc_def observe_def)

lemma step_latency:
  "REQUEST_LATENCY (snd (step s ev)) h =
     REQUEST_LATENCY (snd s) h @
       (case ev of Before i now \<Rightarrow> []
        | After i t0 t1 req resp \<Rightarrow> if h = [path req] then [elapsed_time t0 t1 (fst s)] else [])"
  by (cases s; cases ev) (auto simp: record_metrics_eq inc_def observe_def)

lemma step_latency_length:
  "length (REQUEST_LATENCY (snd (step s ev)) h) =
     length (REQUEST_LATENCY (snd s) h) + (if latency_key ev = Some h then 1 else 0)"
  by (cases ev) (auto simp: step_latency)

lemma run_counter:
  "REQUEST_COUNT (snd (run evs s)) k =
     REQUEST_COUNT (snd s) k + length (filter (\<lambda>ev. counter_key ev = Some k) evs)"
  unfolding run_def
  by (induction evs arbitrary: s) (simp_all add: step_counter)

lemma run_latency_length:
  "length (REQUEST_LATENCY (snd (run evs s)) h) =
     length (REQUEST_LATENCY (snd s) h) + length (filter (\<lambda>ev. latency_key ev = Some h) evs)"
  unfolding run_def
  by (induction evs arbitrary: s) (simp_all add: step_latency_length)

lemma filter_all_same:
  assumes "\<forall>ev\<in>set evs. counter_key ev = None \<or> counter_key ev = Some k"
  shows "filter (\<lambda>ev. counter_key ev = Some k) evs = filter (\<lambda>ev. counter_key ev \<noteq> None) evs"
  using assms by (intro filter_cong) auto

lemma derive_endpoint_unknown:
  assumes "lookup_view a req = None \<or> (\<exists>f e. lookup_view a req = Some f \<and> dunder_name f = Inl e)"
  shows "derive_endpoint a req = ''unknown''"
  using assms
  by (auto simp: derive_endpoint_def getattr_name_def try_except_def split: error.splits)

lemma lookup_view_routed:
  assumes "endpoint req = url_map (path req)" "view_functions a = app_view_functions"
  shows "path req = ''/'' \<Longrightarrow>
           lookup_view (start_timer t a) req = Some \<lparr>dunder_name = Inr ''index'', body = Index\<rparr>"
    and "path req = ''/healthz'' \<Longrightarrow>
           lookup_view (start_timer t a) req = Some \<lparr>dunder_name = Inr ''healthz'', body = Healthz\<rparr>"
    and "path req = ''/metrics'' \<Longrightarrow>
           lookup_view (start_timer t a) req = Some \<lparr>dunder_name = Inr ''metrics'', body = Metrics\<rparr>"
  using assms by (simp_all add: lookup_view_def start_timer_def url_map_def app_view_functions_def)

lemma uniform_band:
  fixes c d :: real
  assumes "1 / 100 \<le> c" "c \<le> d" "d < 2 / 10"
  shows "{u. 0 \<le> u \<and> u < 1 \<and> c \<le> uniform (1 / 100) (2 / 10) u \<and> uniform (1 / 100) (2 / 10) u \<le> d}
         = {(c - 1 / 100) / (19 / 100) .. (d - 1 / 100) / (19 / 100)}"
  using assms by (auto simp: uniform_def field_simps)

lemma metrics_view_response:
  assumes "path req = ''/metrics''"
    and "endpoint req = url_map (path req)"
    and "view_functions (fst s) = app_view_functions"
  shows "snd (handle_request P err e req s) =
           (Inr \<lparr>status_code = 200, mimetype = CONTENT_TYPE_LATEST P,
                 payload = Text (generate_latest P (snd s))\<rparr>, 0)"
  using lookup_view_routed(3) [OF assms(2,3,1)]
  by (simp add: handle_request_def dispatch_request_def record_metrics_eq metrics_def
      Response_def Let_def)

lemma text_content_type_gets_charset:
  assumes "startswith (mimetype r) ''text/''"
  shows "content_type r = mimetype r @ ''; charset=utf-8''"
    and "content_type r \<noteq> mimetype r"
  using assms by (simp_all add: content_type_def get_content_type_def)

lemma json_content_type_unchanged:
  "content_type (jsonify d) = ''application/json''"
  by (simp add: content_type_def get_content_type_def jsonify_def startswith_def endswith_def
      charset_mimetypes_def)

section \<open>The claims\<close>

text \<open>
  C1. The claim: the before-hook keeps the start timestamp in a scope of its own request,
  never in one field shared by the process. The hook writes the attribute
  \<^verbatim>\<open>_start_time\<close> of the application object, which every request shares: after the
  before-hooks of request 1 (at time 0) and request 2 (at time 5) the process holds the
  timestamp 5 only, and its state is the one it would have had request 1 never started.
\<close>

theorem start_timer_single_slot:
  "start_time (fst (run [Before 1 0, Before 2 5] (app0, registry0))) = Some 5
   \<and> fst (run [Before 1 0, Before 2 5] (app0, registry0)) = fst (run [Before 2 5] (app0, registry0))"
  by (simp add: run_def start_timer_def app0_def)

text \<open>
  C2. The claim: with two requests in flight, the latency observed for one reflects only
  its own duration. Request 1 starts at 0 and finishes at 10; request 2 starts at 5 and
  finishes at 6, inside the window of request 1. The histogram of \<^verbatim>\<open>/\<close> receives 1 for
  request 2 and then 5 for request 1, whose own duration is 10: the after-hook of request 1
  subtracts the start of request 2.
\<close>

theorem interleaved_latency_cross_contaminated:
  "REQUEST_LATENCY (snd (run
       [Before 1 0, Before 2 5,
        After 2 6 6 \<lparr>req_method = ''GET'', path = ''/'', endpoint = Some ''index''\<rparr> (jsonify []),
        After 1 10 10 \<lparr>req_method = ''GET'', path = ''/'', endpoint = Some ''index''\<rparr> (jsonify [])]
       (app0, registry0))) [''/''] = [1, 5]"
  by (simp add: run_def record_metrics_eq inc_def observe_def registry0_def jsonify_def
      elapsed_time_def try_except_def app0_def start_timer_def)


text \<open>
  C4. The claim: the after-hook never raises; when the derivation of the label fails the
  derived label is \<^verbatim>\<open>"unknown"\<close>, which is then used in the recorded labels; the response
  is returned. The derived name is never a label. For a request to \<^verbatim>\<open>/nope\<close> that the
  router matched to nothing, the derived name is \<^verbatim>\<open>"unknown"\<close>, the counter and the
  histogram are reported under the path \<^verbatim>\<open>/nope\<close>, and nothing is reported under
  \<^verbatim>\<open>"unknown"\<close>.
\<close>

theorem unknown_label_not_recorded:
  "lookup_view (start_timer 5 app0) \<lparr>req_method = ''GET'', path = ''/nope'', endpoint = None\<rparr> = None
   \<and> derive_endpoint (start_timer 5 app0)
        \<lparr>req_method = ''GET'', path = ''/nope'', endpoint = None\<rparr> = ''unknown''
   \<and> record_metrics 7 7 (start_timer 5 app0)
        \<lparr>req_method = ''GET'', path = ''/nope'', endpoint = None\<rparr>
        \<lparr>status_code = 404, mimetype = ''text/html'', payload = Text ''Not Found''\<rparr> registry0
     = (\<lparr>REQUEST_COUNT = (\<lambda>k. 0)([''GET'', ''/nope'', ''404''] := 1),
         REQUEST_LATENCY = (\<lambda>k. [])([''/nope''] := [2])\<rparr>,
        Inr \<lparr>status_code = 404, mimetype = ''text/html'', payload = Text ''Not Found''\<rparr>)
   \<and> REQUEST_COUNT (fst (record_metrics 7 7 (start_timer 5 app0)
        \<lparr>req_method = ''GET'', path = ''/nope'', endpoint = None\<rparr>
        \<lparr>status_code = 404, mimetype = ''text/html'', payload = Text ''Not Found''\<rparr> registry0))
        [''GET'', ''unknown'', ''404''] = 0
   \<and> REQUEST_LATENCY (fst (record_metrics 7 7 (start_timer 5 app0)
        \<lparr>req_method = ''GET'', path = ''/nope'', endpoint = None\<rparr>
        \<lparr>status_code = 404, mimetype = ''text/html'', payload = Text ''Not Found''\<rparr> registry0))
        [''unknown''] = []"
  by (simp add: record_metrics_eq lookup_view_def derive_endpoint_def getattr_name_def
      try_except_def inc_def observe_def registry0_def elapsed_time_def start_timer_def app0_def
      str_nat.simps digit_char_def)

text \<open>
  C4, as amended. For every application state, request, response and registry the
  after-hook raises nothing and returns the response it was given. When the introspection
  fails (no view is found, or reading the name of the view raises) the derived name is
  \<^verbatim>\<open>"unknown"\<close>. The labels recorded are the method, the raw path and the status, whatever
  the derived name.
\<close>

theorem record_metrics_never_raises:
  "snd (record_metrics t0 t1 a req resp reg) = Inr resp
   \<and> ((lookup_view a req = None \<or> (\<exists>f e. lookup_view a req = Some f \<and> dunder_name f = Inl e))
        \<longrightarrow> derive_endpoint a req = ''unknown'')
   \<and> fst (record_metrics t0 t1 a req resp reg) =
        observe [path req] (elapsed_time t0 t1 a)
          (inc [req_method req, path req, str (PyInt (status_code resp))] reg)"
  by (simp add: record_metrics_eq derive_endpoint_unknown)

theorem record_metrics_never_raises_witness:
  "lookup_view
     \<lparr>view_functions = [''broken'' \<mapsto> \<lparr>dunder_name = Inl OtherException, body = Index\<rparr>],
      start_time = Some 5\<rparr>
     \<lparr>req_method = ''GET'', path = ''/broken'', endpoint = Some ''broken''\<rparr>
     = Some \<lparr>dunder_name = Inl OtherException, body = Index\<rparr>
   \<and> derive_endpoint
     \<lparr>view_functions = [''broken'' \<mapsto> \<lparr>dunder_name = Inl OtherException, body = Index\<rparr>],
      start_time = Some 5\<rparr>
     \<lparr>req_method = ''GET'', path = ''/broken'', endpoint = Some ''broken''\<rparr> = ''unknown''
   \<and> record_metrics 7 7
     \<lparr>view_functions = [''broken'' \<mapsto> \<lparr>dunder_name = Inl OtherException, body = Index\<rparr>],
      start_time = Some 5\<rparr>
     \<lparr>req_method = ''GET'', path = ''/broken'', endpoint = Some ''broken''\<rparr>
     (jsonify []) registry0
     = (\<lparr>REQUEST_COUNT = (\<lambda>k. 0)([''GET'', ''/broken'', ''200''] := 1),
         REQUEST_LATENCY = (\<lambda>k. [])([''/broken''] := [2])\<rparr>,
        Inr (jsonify []))"
  using record_metrics_never_raises [of 7 7
     "\<lparr>view_functions = [''broken'' \<mapsto> \<lparr>dunder_name = Inl OtherException, body = Index\<rparr>],
      start_time = Some 5\<rparr>"
     "\<lparr>req_method = ''GET'', path = ''/broken'', endpoint = Some ''broken''\<rparr>"
     "jsonify []" registry0]
  by (simp add: lookup_view_def prod_eq_iff inc_def observe_def registry0_def jsonify_def
      elapsed_time_def try_except_def str_nat.simps digit_char_def)

text \<open>
  C5. For every request and response the after-hook adds one to the counter child
  labelled with the method, the raw path and the status code, appends the elapsed time
  to the histogram child labelled with that raw path alone, changes nothing else in the
  registry, and returns the response.
\<close>

theorem record_metrics_labels:
  "record_metrics t0 t1 a req resp reg =
     (reg\<lparr>REQUEST_COUNT :=
            (REQUEST_COUNT reg)
              ([req_method req, path req, str (PyInt (status_code resp))] :=
                 REQUEST_COUNT reg [req_method req, path req, str (PyInt (status_code resp))] + 1),
          REQUEST_LATENCY :=
            (REQUEST_LATENCY reg)
              ([path req] := REQUEST_LATENCY reg [path req] @ [elapsed_time t0 t1 a])\<rparr>,
      Inr resp)"
  by (simp add: record_metrics_eq inc_def observe_def)

theorem record_metrics_labels_witness:
  "fst (record_metrics 7 7 (start_timer 5 app0) \<lparr>req_method = ''GET'', path = ''/'', endpoint = Some ''index''\<rparr> (jsonify []) registry0)
   = \<lparr>REQUEST_COUNT = (\<lambda>k. 0)([''GET'', ''/'', ''200''] := 1),
      REQUEST_LATENCY = (\<lambda>k. [])([''/''] := [2])\<rparr>"
  using record_metrics_labels [of 7 7 "start_timer 5 app0" "\<lparr>req_method = ''GET'', path = ''/'', endpoint = Some ''index''\<rparr>" "jsonify []" registry0]
  by (simp add: registry0_def jsonify_def elapsed_time_def try_except_def start_timer_def
      app0_def str_nat.simps digit_char_def)

text \<open>
  C6. Requests served in any interleaving of their hooks: every run of the after-hook
  adds exactly one to the counter child of its own label combination and exactly one
  observation to the histogram child of its own path, and nothing else changes either;
  so a child grows by the number of completed requests that report under it. When all
  the completed requests are \<^verbatim>\<open>GET /\<close> answered with status 200, the counter child
  \<^verbatim>\<open>{method="GET", endpoint="/", http_status="200"}\<close> grows by their number.
\<close>

theorem run_counts_every_request:
  "REQUEST_COUNT (snd (run evs s)) k =
     REQUEST_COUNT (snd s) k + length (filter (\<lambda>ev. counter_key ev = Some k) evs)
   \<and> length (REQUEST_LATENCY (snd (run evs s)) h) =
     length (REQUEST_LATENCY (snd s) h) + length (filter (\<lambda>ev. latency_key ev = Some h) evs)
   \<and> ((\<forall>ev\<in>set evs. counter_key ev = None \<or> counter_key ev = Some [''GET'', ''/'', ''200''])
       \<longrightarrow> REQUEST_COUNT (snd (run evs s)) [''GET'', ''/'', ''200''] =
            REQUEST_COUNT (snd s) [''GET'', ''/'', ''200'']
              + length (filter (\<lambda>ev. counter_key ev \<noteq> None) evs))"
  by (simp add: run_counter run_latency_length filter_all_same)

theorem run_counts_every_request_witness:
  "REQUEST_COUNT (snd (run
       [Before 1 0, Before 2 1, Before 3 2,
        After 2 3 3 \<lparr>req_method = ''GET'', path = ''/'', endpoint = Some ''index''\<rparr> (jsonify []),
        After 1 4 4 \<lparr>req_method = ''GET'', path = ''/'', endpoint = Some ''index''\<rparr> (jsonify []),
        After 3 5 5 \<lparr>req_method = ''GET'', path = ''/'', endpoint = Some ''index''\<rparr> (jsonify [])]
       (app0, registry0))) [''GET'', ''/'', ''200''] = 3
   \<and> length (REQUEST_LATENCY (snd (run
       [Before 1 0, Before 2 1, Before 3 2,
        After 2 3 3 \<lparr>req_method = ''GET'', path = ''/'', endpoint = Some ''index''\<rparr> (jsonify []),
        After 1 4 4 \<lparr>req_method = ''GET'', path = ''/'', endpoint = Some ''index''\<rparr> (jsonify []),
        After 3 5 5 \<lparr>req_method = ''GET'', path = ''/'', endpoint = Some ''index''\<rparr> (jsonify [])]
       (app0, registry0))) [''/'']) = 3"
  using run_counts_every_request [of
       "[Before 1 0, Before 2 1, Before 3 2,
        After 2 3 3 \<lparr>req_method = ''GET'', path = ''/'', endpoint = Some ''index''\<rparr> (jsonify []),
        After 1 4 4 \<lparr>req_method = ''GET'', path = ''/'', endpoint = Some ''index''\<rparr> (jsonify []),
        After 3 5 5 \<lparr>req_method = ''GET'', path = ''/'', endpoint = Some ''index''\<rparr> (jsonify [])]"
       "(app0, registry0)" "[''GET'', ''/'', ''200'']" "[''/'']"]
  by (simp add: registry0_def jsonify_def str_nat.simps digit_char_def)

text \<open>
  C7. A request to \<^verbatim>\<open>/healthz\<close> that the router matched to the rule registered for its
  path is answered with status 200 and the body \<^verbatim>\<open>{"status": "ok"}\<close>, after no sleep; the
  answer is the same whatever the registry, the clock, the random draw, the metrics
  library and the rest of the application state are.
\<close>

theorem healthz_request:
  assumes "path req = ''/healthz''"
    and "endpoint req = url_map (path req)"
    and "view_functions (fst s) = app_view_functions"
  shows "snd (handle_request P err e req s) =
           (Inr \<lparr>status_code = 200, mimetype = ''application/json'',
                 payload = JsonObject [(''status'', ''ok'')]\<rparr>, 0)"
  using lookup_view_routed(2) [OF assms(2,3,1)]
  by (simp add: handle_request_def dispatch_request_def record_metrics_eq healthz_def
      jsonify_def Let_def)

theorem healthz_request_witness:
  "snd (handle_request \<lparr>generate_latest = (\<lambda>r. ''x''), CONTENT_TYPE_LATEST = ''text/plain''\<rparr>
          (jsonify []) \<lparr>t_before = 5, t_after = 7, t_default = 7, draw = 1 / 2\<rparr>
          \<lparr>req_method = ''GET'', path = ''/healthz'', endpoint = Some ''healthz''\<rparr>
          (app0, registry0)) =
     (Inr \<lparr>status_code = 200, mimetype = ''application/json'',
           payload = JsonObject [(''status'', ''ok'')]\<rparr>, 0)"
  using healthz_request [of "\<lparr>req_method = ''GET'', path = ''/healthz'', endpoint = Some ''healthz''\<rparr>"
      "(app0, registry0)"
      "\<lparr>generate_latest = (\<lambda>r. ''x''), CONTENT_TYPE_LATEST = ''text/plain''\<rparr>"
      "jsonify []" "\<lparr>t_before = 5, t_after = 7, t_default = 7, draw = 1 / 2\<rparr>"]
  by (simp add: url_map_def app0_def)

text \<open>
  C8. A request to \<^verbatim>\<open>/\<close> that the router matched to the rule registered for its path,
  with a draw \<open>u\<close> of the random generator in \<open>[0, 1)\<close>: the view sleeps
  \<open>0.01 + 0.19 * u\<close> seconds, a time between 0.01 and 0.2, and the answer is status 200
  with the fixed greeting. The sleep is uniform on its range when the draw is uniform
  on \<open>[0, 1)\<close>: the draws that lead to a sleep in a band \<open>[c, d]\<close> of the range form an
  interval whose length is the band's length divided by 0.19.
\<close>

theorem index_request:
  assumes "path req = ''/''"
    and "endpoint req = url_map (path req)"
    and "view_functions (fst s) = app_view_functions"
    and "0 \<le> draw e" and "draw e < 1"
  shows "fst (snd (handle_request P err e req s)) =
           Inr \<lparr>status_code = 200, mimetype = ''application/json'',
                payload = JsonObject [(''message'', ''Hello from HWMonitor Flask app!'')]\<rparr>
     \<and> snd (snd (handle_request P err e req s)) = 1 / 100 + (19 / 100) * draw e
     \<and> 1 / 100 \<le> snd (snd (handle_request P err e req s))
     \<and> snd (snd (handle_request P err e req s)) < 2 / 10
     \<and> (1 / 100 \<le> c \<and> c \<le> d \<and> d < 2 / 10 \<longrightarrow>
          {u. 0 \<le> u \<and> u < 1 \<and> c \<le> uniform (1 / 100) (2 / 10) u
                \<and> uniform (1 / 100) (2 / 10) u \<le> d}
          = {(c - 1 / 100) / (19 / 100) .. (d - 1 / 100) / (19 / 100)})"
proof -
  have r: "snd (handle_request P err e req s) =
      (Inr \<lparr>status_code = 200, mimetype = ''application/json'',
            payload = JsonObject [(''message'', ''Hello from HWMonitor Flask app!'')]\<rparr>,
       1 / 100 + (19 / 100) * draw e)"
    using lookup_view_routed(1) [OF assms(2,3,1)]
    by (simp add: handle_request_def dispatch_request_def record_metrics_eq index_def
        jsonify_def uniform_def Let_def)
  have lo: "1 / 100 \<le> 1 / 100 + (19 / 100) * draw e"
    using assms(4) by simp
  have hi: "1 / 100 + (19 / 100) * draw e < 2 / 10"
    using assms(5) by simp
  show ?thesis
  proof (intro conjI impI)
    show "fst (snd (handle_request P err e req s)) =
           Inr \<lparr>status_code = 200, mimetype = ''application/json'',
                payload = JsonObject [(''message'', ''Hello from HWMonitor Flask app!'')]\<rparr>"
      by (simp only: r fst_conv)
    show "snd (snd (handle_request P err e req s)) = 1 / 100 + (19 / 100) * draw e"
      by (simp only: r snd_conv)
    show "1 / 100 \<le> snd (snd (handle_request P err e req s))"
      using lo by (simp only: r snd_conv)
    show "snd (snd (handle_request P err e req s)) < 2 / 10"
      using hi by (simp only: r snd_conv)
  next
    assume "1 / 100 \<le> c \<and> c \<le> d \<and> d < 2 / 10"
    then show "{u. 0 \<le> u \<and> u < 1 \<and> c \<le> uniform (1 / 100) (2 / 10) u
                \<and> uniform (1 / 100) (2 / 10) u \<le> d}
          = {(c - 1 / 100) / (19 / 100) .. (d - 1 / 100) / (19 / 100)}"
      using uniform_band [of c d] by blast
  qed
qed

theorem index_request_witness:
  "snd (handle_request \<lparr>generate_latest = (\<lambda>r. ''x''), CONTENT_TYPE_LATEST = ''text/plain''\<rparr>
          (jsonify []) \<lparr>t_before = 5, t_after = 7, t_default = 7, draw = 1 / 2\<rparr>
          \<lparr>req_method = ''GET'', path = ''/'', endpoint = Some ''index''\<rparr>
          (app0, registry0)) =
     (Inr \<lparr>status_code = 200, mimetype = ''application/json'',
           payload = JsonObject [(''message'', ''Hello from HWMonitor Flask app!'')]\<rparr>, 21 / 200)
   \<and> {u. 0 \<le> u \<and> u < 1 \<and> 5 / 100 \<le> uniform (1 / 100) (2 / 10) u
          \<and> uniform (1 / 100) (2 / 10) u \<le> 10 / 100}
     = {(4 / 19 :: real) .. 9 / 19}"
proof -
  let ?req = "\<lparr>req_method = ''GET'', path = ''/'', endpoint = Some ''index''\<rparr>"
  let ?e = "\<lparr>t_before = 5, t_after = 7, t_default = 7, draw = 1 / 2\<rparr>"
  have a: "path ?req = ''/''" by simp
  have b: "endpoint ?req = url_map (path ?req)" by (simp add: url_map_def)
  have v: "view_functions (fst (app0, registry0)) = app_view_functions" by (simp add: app0_def)
  have d0: "0 \<le> draw ?e" and d1: "draw ?e < 1" by simp_all
  note t = index_request [OF a b v d0 d1,
      of "\<lparr>generate_latest = (\<lambda>r. ''x''), CONTENT_TYPE_LATEST = ''text/plain''\<rparr>" "jsonify []"
         "5 / 100" "10 / 100"]
  have band: "(1::real) / 100 \<le> 5 / 100 \<and> (5::real) / 100 \<le> 10 / 100 \<and> (10::real) / 100 < 2 / 10"
    by simp
  from t band show ?thesis
    by (simp add: prod_eq_iff)
qed

text \<open>
  C9. The claim: the answer to \<^verbatim>\<open>/metrics\<close> is the rendering of the entire registry,
  with a content type that is exactly the one the exposition format requires. The body
  is that rendering. The content type is not: the view passes the constant of the
  metrics library as \<^verbatim>\<open>mimetype=\<close>, and a mimetype that starts with \<^verbatim>\<open>text/\<close> gets a
  charset parameter appended. With the constant
  \<^verbatim>\<open>text/plain; version=0.0.4; charset=utf-8\<close> the header is
  \<^verbatim>\<open>text/plain; version=0.0.4; charset=utf-8; charset=utf-8\<close>.
\<close>

theorem metrics_content_type_not_exact:
  "snd (handle_request
          \<lparr>generate_latest = (\<lambda>r. if REQUEST_COUNT r [''GET'', ''/'', ''200''] = 0 then ''none'' else ''some''),
           CONTENT_TYPE_LATEST = ''text/plain; version=0.0.4; charset=utf-8''\<rparr>
          (jsonify []) \<lparr>t_before = 5, t_after = 7, t_default = 7, draw = 1 / 2\<rparr>
          \<lparr>req_method = ''GET'', path = ''/metrics'', endpoint = Some ''metrics''\<rparr>
          (app0, registry0)) =
     (Inr \<lparr>status_code = 200, mimetype = ''text/plain; version=0.0.4; charset=utf-8'',
           payload = Text ''none''\<rparr>, 0)
   \<and> content_type \<lparr>status_code = 200, mimetype = ''text/plain; version=0.0.4; charset=utf-8'',
           payload = Text ''none''\<rparr>
       = ''text/plain; version=0.0.4; charset=utf-8; charset=utf-8''
   \<and> content_type \<lparr>status_code = 200, mimetype = ''text/plain; version=0.0.4; charset=utf-8'',
           payload = Text ''none''\<rparr>
       \<noteq> ''text/plain; version=0.0.4; charset=utf-8''"
  using metrics_view_response [of
      "\<lparr>req_method = ''GET'', path = ''/metrics'', endpoint = Some ''metrics''\<rparr>"
      "(app0, registry0)"
      "\<lparr>generate_latest = (\<lambda>r. if REQUEST_COUNT r [''GET'', ''/'', ''200''] = 0 then ''none'' else ''some''),
           CONTENT_TYPE_LATEST = ''text/plain; version=0.0.4; charset=utf-8''\<rparr>"
      "jsonify []" "\<lparr>t_before = 5, t_after = 7, t_default = 7, draw = 1 / 2\<rparr>"]
  by (simp add: url_map_def app0_def registry0_def content_type_def get_content_type_def
      startswith_def)

text \<open>
  C10. The endpoint name derived by introspection is used nowhere: two runs of the
  after-hook that differ only in the dispatch table and in the endpoint the router
  matched (all that the introspection reads) leave the same registry and return the same
  response.
\<close>

theorem introspection_not_observable:
  "record_metrics t0 t1 (a\<lparr>view_functions := vf\<rparr>) (req\<lparr>endpoint := e\<rparr>) resp reg =
   record_metrics t0 t1 (a\<lparr>view_functions := vf'\<rparr>) (req\<lparr>endpoint := e'\<rparr>) resp reg"
  by (simp add: record_metrics_eq elapsed_time_def)

end
